theory Spec2Isabelle
  imports Main "HOL-Library.Char_ord" "HOL-Library.List_Lexorder" "HOL-Library.Multiset"
begin

section \<open>Emlee: a shallow embedding of \<^verbatim>\<open>src/main.py\<close>\<close>

text \<open>
  The viewer is one Python class, \<^verbatim>\<open>EmailViewer\<close>, whose methods mutate the object
  and the file system. The embedding passes the object explicitly (record \<open>viewer\<close>) and
  returns it updated, together with the exception that ended the method, if any: a
  Python exception leaves every assignment made before it in place, so the state that
  comes back with an exception is the state at the raise.

  What the standard library and the two mail libraries answer is input to the program.
  It is collected in the record \<open>env\<close> (directory listings, the temporary directory,
  the parsed message of a path, whether a path can be opened for writing) and in the
  records \<open>part\<close>, \<open>message\<close>, \<open>att\<close> and \<open>msgfile\<close>, whose fields are the results of the
  accessor calls the source makes on these objects.

  Strings are \<open>char list\<close>; a \<^verbatim>\<open>bytes\<close> value is a list of bytes, also \<open>char list\<close>.
  Path functions follow \<^verbatim>\<open>posixpath\<close>; case folding is the ASCII part of
  \<^verbatim>\<open>str.lower\<close>.
\<close>

subsection \<open>Strings\<close>

type_synonym bytes = "char list"

text \<open>The ASCII letters are folded; every other character is left as it is.\<close>

definition lower_char :: "char \<Rightarrow> char" where
  "lower_char c =
     (case map_of (zip ''ABCDEFGHIJKLMNOPQRSTUVWXYZ'' ''abcdefghijklmnopqrstuvwxyz'') c of
        Some d \<Rightarrow> d
      | None \<Rightarrow> c)"

text \<open>\<^verbatim>\<open>s.lower()\<close>\<close>

definition lower :: "string \<Rightarrow> string" where
  "lower s = map lower_char s"

text \<open>\<^verbatim>\<open>s.startswith(pre)\<close>\<close>

definition startswith :: "string \<Rightarrow> string \<Rightarrow> bool" where
  "startswith s pre = (take (length pre) s = pre)"

text \<open>\<^verbatim>\<open>needle in hay\<close> on strings: \<open>needle\<close> occurs as a substring of \<open>hay\<close>.\<close>

fun contains :: "string \<Rightarrow> string \<Rightarrow> bool" where
  "contains needle [] = (needle = [])"
| "contains needle (c # cs) = (startswith (c # cs) needle \<or> contains needle cs)"

text \<open>\<^verbatim>\<open>s.replace(c, r)\<close> for a one-character \<open>c\<close>.\<close>

definition replace_char :: "char \<Rightarrow> string \<Rightarrow> string \<Rightarrow> string" where
  "replace_char c r s = concat (map (\<lambda>x. if x = c then r else [x]) s)"

text \<open>
  \<^verbatim>\<open>html.escape(s)\<close> with its default \<^verbatim>\<open>quote=True\<close>: five replacements in the
  library's order, the ampersand first.
\<close>

definition html_escape :: "string \<Rightarrow> string" where
  "html_escape s =
     replace_char (CHR 0x27) ''&#x27;''
       (replace_char (CHR 0x22) ''&quot;''
         (replace_char CHR ''>'' ''&gt;''
           (replace_char CHR ''<'' ''&lt;''
             (replace_char CHR ''&'' ''&amp;'' s))))"

text \<open>\<^verbatim>\<open>xs.index(x)\<close>: the first position of \<open>x\<close>; \<open>None\<close> stands for ValueError.\<close>

fun list_index :: "'a list \<Rightarrow> 'a \<Rightarrow> nat option" where
  "list_index [] x = None"
| "list_index (y # ys) x = (if y = x then Some 0 else map_option Suc (list_index ys x))"

subsection \<open>Paths (\<^verbatim>\<open>posixpath\<close>)\<close>

text \<open>\<^verbatim>\<open>os.path.join(a, b)\<close>: an absolute \<open>b\<close> replaces \<open>a\<close>.\<close>

definition path_join :: "string \<Rightarrow> string \<Rightarrow> string" where
  "path_join a b =
     (if startswith b ''/'' then b
      else if a = [] \<or> last a = CHR ''/'' then a @ b
      else a @ ''/'' @ b)"

text \<open>\<^verbatim>\<open>os.path.basename(p)\<close>: what follows the last slash.\<close>

definition basename :: "string \<Rightarrow> string" where
  "basename p = rev (takeWhile (\<lambda>c. c \<noteq> CHR ''/'') (rev p))"

text \<open>
  \<^verbatim>\<open>os.path.dirname(p)\<close>: the text up to the last slash, with trailing slashes
  stripped unless it consists of slashes only.
\<close>

definition dirname :: "string \<Rightarrow> string" where
  "dirname p =
     (let head = rev (dropWhile (\<lambda>c. c \<noteq> CHR ''/'') (rev p))
      in if head \<noteq> [] \<and> \<not> list_all (\<lambda>c. c = CHR ''/'') head
         then rev (dropWhile (\<lambda>c. c = CHR ''/'') (rev head))
         else head)"

text \<open>
  \<^verbatim>\<open>os.path.splitext(p)[1]\<close>: the extension starts at the last dot of the base name,
  provided a character other than a dot stands before it there.
\<close>

definition splitext_ext :: "string \<Rightarrow> string" where
  "splitext_ext p =
     (let name = basename p in
      if CHR ''.'' \<in> set name then
        (let stem = rev (tl (dropWhile (\<lambda>c. c \<noteq> CHR ''.'') (rev name)));
             ext = CHR ''.'' # rev (takeWhile (\<lambda>c. c \<noteq> CHR ''.'') (rev name))
         in if list_all (\<lambda>c. c = CHR ''.'') stem then [] else ext)
      else [])"

subsection \<open>Python values and exceptions\<close>

datatype exn = OSError | TypeError | LookupError | KeyError

text \<open>A value that is a \<^verbatim>\<open>str\<close> or a \<^verbatim>\<open>bytes\<close> object.\<close>

datatype pyval = PyStr string | PyBytes bytes

text \<open>Truth value of an optional string or bytes object: \<^verbatim>\<open>None\<close> and the empty value are false.\<close>

fun truthy :: "pyval option \<Rightarrow> bool" where
  "truthy None = False"
| "truthy (Some (PyStr t)) = (t \<noteq> [])"
| "truthy (Some (PyBytes b)) = (b \<noteq> [])"

text \<open>\<^verbatim>\<open>x or ""\<close> for an optional string.\<close>

fun or_empty :: "string option \<Rightarrow> string" where
  "or_empty None = []"
| "or_empty (Some t) = t"

text \<open>
  \<^verbatim>\<open>"<pre>" + html.escape(v) + "</pre>"\<close>: \<^verbatim>\<open>html.escape\<close> calls
  \<^verbatim>\<open>v.replace("&", "&amp;")\<close>, a TypeError on a bytes object.
\<close>

fun pre_escape :: "pyval \<Rightarrow> exn + string" where
  "pre_escape (PyStr t) = Inr (''<pre>'' @ html_escape t @ ''</pre>'')"
| "pre_escape (PyBytes b) = Inl TypeError"

text \<open>The argument of \<^verbatim>\<open>setHtml\<close> must be a \<^verbatim>\<open>str\<close>.\<close>

fun as_html :: "pyval \<Rightarrow> exn + string" where
  "as_html (PyStr t) = Inr t"
| "as_html (PyBytes b) = Inl TypeError"

subsection \<open>Messages as the libraries present them\<close>

text \<open>
  A part of a MIME message, as \<^verbatim>\<open>msg.walk()\<close> yields it. Each field is the result of
  one accessor: \<open>content_disposition\<close> is \<^verbatim>\<open>part.get("Content-Disposition")\<close> (the
  header's value, \<open>None\<close> when the part has no such header), \<open>get_content\<close> may raise,
  \<open>get_payload\<close> is \<^verbatim>\<open>part.get_payload(decode=True)\<close>, which is \<^verbatim>\<open>None\<close> for a
  multipart container.
\<close>

record part =
  content_disposition :: "string option"
  get_content_type :: string
  get_content :: "exn + pyval"
  get_filename :: "string option"
  get_payload :: "bytes option"

text \<open>
  \<^verbatim>\<open>part.get_content_disposition()\<close>: the header's value up to the first semicolon, in
  lower case, and \<^verbatim>\<open>None\<close> exactly when the header is absent. The source only tests the
  result for \<^verbatim>\<open>None\<close>; the stripping of blanks is left out.
\<close>

definition get_content_disposition :: "part \<Rightarrow> string option" where
  "get_content_disposition p =
     map_option (\<lambda>v. lower (takeWhile (\<lambda>c. c \<noteq> CHR '';'') v)) (content_disposition p)"

text \<open>
  A parsed message: \<open>header\<close> is \<^verbatim>\<open>msg.get(name)\<close>; the message object is itself the
  first part that \<^verbatim>\<open>msg.walk()\<close> yields (\<open>root\<close>), followed by its descendants in
  document order (\<open>subparts\<close>).
\<close>

record message =
  header :: "string \<Rightarrow> string option"
  is_multipart :: bool
  root :: part
  subparts :: "part list"

definition walk :: "message \<Rightarrow> part list" where
  "walk msg = root msg # subparts msg"

text \<open>An attachment of an \<^verbatim>\<open>extract_msg\<close> message; \<open>data\<close> is \<open>None\<close> when it is not bytes.\<close>

record att =
  longFilename :: "string option"
  shortFilename :: "string option"
  data :: "bytes option"

record msgfile =
  sender :: "string option"
  to :: "string option"
  cc :: "string option"
  bcc :: "string option"
  date :: "string option"
  subject :: "string option"
  htmlBody :: "pyval option"
  body :: "pyval option"
  msg_attachments :: "att list"

subsection \<open>The environment and the viewer\<close>

text \<open>
  \<open>extract_msg\<close>: whether the import of the module succeeded; \<open>glob\<close>:
  \<^verbatim>\<open>glob.glob(pattern)\<close>; \<open>gettempdir\<close>: \<^verbatim>\<open>tempfile.gettempdir()\<close>; \<open>parse\<close>: opening a
  path and parsing it with \<^verbatim>\<open>BytesParser\<close>; \<open>Message\<close>: \<^verbatim>\<open>extract_msg.Message(path)\<close>;
  \<open>can_open\<close>: whether \<^verbatim>\<open>open(path, 'wb')\<close> succeeds; \<open>decode\<close>:
  \<^verbatim>\<open>b.decode("utf-8", errors="replace")\<close>.
\<close>

record env =
  extract_msg :: bool
  glob :: "string \<Rightarrow> string list"
  gettempdir :: string
  parse :: "string \<Rightarrow> exn + message"
  Message :: "string \<Rightarrow> exn + msgfile"
  can_open :: "string \<Rightarrow> bool"
  decode :: "bytes \<Rightarrow> string"

text \<open>
  The attributes of \<^verbatim>\<open>EmailViewer\<close> and the text of its widgets, together with what
  the viewer leaves outside itself: \<open>files\<close> (the content of every path it wrote),
  \<open>stdout\<close> (lines printed) and \<open>warnings\<close> (texts of the warning boxes shown).
\<close>

record viewer =
  window_title :: string
  current_email_path :: "string option"
  email_files_list :: "string list"
  current_index :: int
  attachments :: "string \<rightharpoonup> string"
  attachments_list :: "string list"
  label_from :: string
  label_to :: string
  label_cc :: string
  label_bcc :: string
  label_subject :: string
  label_date :: string
  body_text :: string
  files :: "string \<rightharpoonup> bytes"
  stdout :: "string list"
  warnings :: "string list"

text \<open>
  \<^verbatim>\<open>with open(path, 'wb') as f: f.write(d)\<close>. Opening truncates the file, so a write
  that raises for a \<open>d\<close> that is not bytes leaves an empty file behind.
\<close>

definition write_file :: "env \<Rightarrow> string \<Rightarrow> bytes option \<Rightarrow> viewer \<Rightarrow> exn option \<times> viewer" where
  "write_file e path d s =
     (if \<not> can_open e path then (Some OSError, s)
      else case d of
        None \<Rightarrow> (Some TypeError, s\<lparr>files := (files s)(path \<mapsto> [])\<rparr>)
      | Some b \<Rightarrow> (None, s\<lparr>files := (files s)(path \<mapsto> b)\<rparr>))"

text \<open>The bookkeeping after a successful write (lines 198-202 and 240-244).\<close>

definition add_attachment :: "string \<Rightarrow> string \<Rightarrow> viewer \<Rightarrow> viewer" where
  "add_attachment filename temp_path s =
     s\<lparr>attachments := (attachments s)(filename \<mapsto> temp_path),
       attachments_list := attachments_list s @ [filename]\<rparr>"

subsection \<open>\<^verbatim>\<open>load_eml\<close>\<close>

text \<open>
  The loop of lines 166-171 over the parts still to visit, with the current
  \<^verbatim>\<open>html_body\<close> and \<^verbatim>\<open>plain_body\<close>.
\<close>

fun walk_bodies :: "part list \<Rightarrow> pyval option \<times> pyval option \<Rightarrow> exn + (pyval option \<times> pyval option)" where
  "walk_bodies [] (html_body, plain_body) = Inr (html_body, plain_body)"
| "walk_bodies (p # ps) (html_body, plain_body) =
     (if get_content_disposition p = None then
        (if get_content_type p = ''text/html'' then
           (case get_content p of
              Inl x \<Rightarrow> Inl x
            | Inr v \<Rightarrow> walk_bodies ps (Some v, plain_body))
         else if get_content_type p = ''text/plain'' then
           (case get_content p of
              Inl x \<Rightarrow> Inl x
            | Inr v \<Rightarrow> walk_bodies ps (html_body, Some v))
         else walk_bodies ps (html_body, plain_body))
      else walk_bodies ps (html_body, plain_body))"

text \<open>Lines 162-184: the string handed to \<^verbatim>\<open>setHtml\<close>, or the exception raised on the way.\<close>

definition eml_body :: "message \<Rightarrow> exn + string" where
  "eml_body msg =
     (if is_multipart msg then
        (case walk_bodies (walk msg) (None, None) of
           Inl x \<Rightarrow> Inl x
         | Inr (html_body, plain_body) \<Rightarrow>
             (if truthy html_body then
                (case html_body of Some v \<Rightarrow> as_html v | None \<Rightarrow> Inr [])
              else if truthy plain_body then
                (case plain_body of Some v \<Rightarrow> pre_escape v | None \<Rightarrow> Inr [])
              else Inr []))
      else
        (case get_content (root msg) of
           Inl x \<Rightarrow> Inl x
         | Inr content \<Rightarrow>
             (if get_content_type (root msg) = ''text/html'' then as_html content
              else pre_escape content)))"

text \<open>The loop of lines 188-202 over the parts still to visit.\<close>

fun eml_attachments :: "env \<Rightarrow> part list \<Rightarrow> viewer \<Rightarrow> exn option \<times> viewer" where
  "eml_attachments e [] s = (None, s)"
| "eml_attachments e (p # ps) s =
     (let content_disp = or_empty (content_disposition p) in
      if contains ''attachment'' content_disp then
        (case get_filename p of
           None \<Rightarrow> eml_attachments e ps s
         | Some filename \<Rightarrow>
             (if filename = [] then eml_attachments e ps s
              else
                (let temp_path = path_join (gettempdir e) filename in
                 case write_file e temp_path (get_payload p) s of
                   (Some x, s') \<Rightarrow> (Some x, s')
                 | (None, s') \<Rightarrow> eml_attachments e ps (add_attachment filename temp_path s'))))
      else eml_attachments e ps s)"

text \<open>Lines 153-202: everything \<^verbatim>\<open>load_eml\<close> does with the parsed message.\<close>

definition show_eml :: "env \<Rightarrow> message \<Rightarrow> viewer \<Rightarrow> exn option \<times> viewer" where
  "show_eml e msg s =
     (let s1 = s\<lparr>label_from := ''From: '' @ or_empty (header msg ''From''),
                 label_to := ''To: '' @ or_empty (header msg ''To''),
                 label_cc := ''CC: '' @ or_empty (header msg ''Cc''),
                 label_bcc := ''BCC: '' @ or_empty (header msg ''Bcc''),
                 label_subject := ''Subject: '' @ or_empty (header msg ''Subject''),
                 label_date := ''Date: '' @ or_empty (header msg ''Date'')\<rparr>
      in case eml_body msg of
           Inl x \<Rightarrow> (Some x, s1)
         | Inr b \<Rightarrow> eml_attachments e (walk msg) (s1\<lparr>body_text := b\<rparr>))"

definition load_eml :: "env \<Rightarrow> string \<Rightarrow> viewer \<Rightarrow> exn option \<times> viewer" where
  "load_eml e file_path s =
     (case parse e file_path of
        Inl x \<Rightarrow> (Some x, s)
      | Inr msg \<Rightarrow> show_eml e msg s)"

subsection \<open>\<^verbatim>\<open>load_msg\<close>\<close>

text \<open>\<^verbatim>\<open>v.decode("utf-8", errors="replace") if isinstance(v, bytes) else v\<close>\<close>

fun as_text :: "env \<Rightarrow> pyval \<Rightarrow> string" where
  "as_text e (PyStr t) = t"
| "as_text e (PyBytes b) = decode e b"

text \<open>Lines 221-227.\<close>

definition msg_body :: "env \<Rightarrow> msgfile \<Rightarrow> string" where
  "msg_body e msg =
     (if truthy (htmlBody msg) then
        (case htmlBody msg of Some v \<Rightarrow> as_text e v | None \<Rightarrow> [])
      else if truthy (body msg) then
        (case body msg of
           Some v \<Rightarrow> ''<pre>'' @ html_escape (as_text e v) @ ''</pre>''
         | None \<Rightarrow> [])
      else [])"

text \<open>
  The loop of lines 232-246. The \<^verbatim>\<open>try\<close> encloses the write and the bookkeeping: an
  exception of the write is printed and the loop goes on. The printed line is recorded
  up to the filename, without the text of the exception that follows it.
\<close>

fun msg_attachments_loop :: "env \<Rightarrow> att list \<Rightarrow> viewer \<Rightarrow> viewer" where
  "msg_attachments_loop e [] s = s"
| "msg_attachments_loop e (a # as) s =
     (let filename =
            (if longFilename a \<noteq> None \<and> longFilename a \<noteq> Some [] then longFilename a
             else shortFilename a)
      in case filename of
           None \<Rightarrow> msg_attachments_loop e as s
         | Some name \<Rightarrow>
             (if name = [] then msg_attachments_loop e as s
              else
                (let temp_path = path_join (gettempdir e) name in
                 case write_file e temp_path (data a) s of
                   (Some x, s') \<Rightarrow>
                     msg_attachments_loop e as
                       (s'\<lparr>stdout := stdout s' @ [''Error saving attachment '' @ name]\<rparr>)
                 | (None, s') \<Rightarrow>
                     msg_attachments_loop e as (add_attachment name temp_path s'))))"

definition load_msg :: "env \<Rightarrow> string \<Rightarrow> viewer \<Rightarrow> exn option \<times> viewer" where
  "load_msg e file_path s =
     (case Message e file_path of
        Inl x \<Rightarrow> (Some x, s)
      | Inr msg \<Rightarrow>
          (let s1 = s\<lparr>label_from := ''From: '' @ or_empty (sender msg),
                      label_to := ''To: '' @ or_empty (to msg),
                      label_cc := ''CC: '' @ or_empty (cc msg),
                      label_bcc := ''BCC: '' @ or_empty (bcc msg),
                      label_subject := ''Subject: '' @ or_empty (subject msg),
                      label_date := ''Date: '' @ or_empty (date msg),
                      body_text := msg_body e msg\<rparr>
           in (None, msg_attachments_loop e (msg_attachments msg) s1)))"

subsection \<open>\<^verbatim>\<open>load_email_file\<close>, \<^verbatim>\<open>load_next\<close>, \<^verbatim>\<open>load_previous\<close>\<close>

text \<open>Lines 116-124: the sorted list of the mail files beside \<open>file_path\<close>.\<close>

definition patterns :: "env \<Rightarrow> string \<Rightarrow> string list" where
  "patterns e directory =
     (if extract_msg e then [path_join directory ''*.eml'', path_join directory ''*.msg'']
      else [path_join directory ''*.eml''])"

definition sibling_files :: "env \<Rightarrow> string \<Rightarrow> string list" where
  "sibling_files e file_path =
     sort_key lower (concat (map (glob e) (patterns e (dirname file_path))))"

text \<open>Lines 125-128.\<close>

definition index_or_minus_one :: "string list \<Rightarrow> string \<Rightarrow> int" where
  "index_or_minus_one xs x = (case list_index xs x of Some i \<Rightarrow> int i | None \<Rightarrow> - 1)"

definition warning :: "string \<Rightarrow> viewer \<Rightarrow> viewer" where
  "warning t s = s\<lparr>warnings := warnings s @ [t]\<rparr>"

definition load_email_file :: "env \<Rightarrow> string \<Rightarrow> viewer \<Rightarrow> exn option \<times> viewer" where
  "load_email_file e file_path s =
     (let s1 = s\<lparr>body_text := ''<p>Loading email, please wait...</p>'',
                 current_email_path := Some file_path,
                 window_title := ''Emlee - '' @ basename file_path\<rparr>;
          s2 = s1\<lparr>email_files_list := sibling_files e file_path\<rparr>;
          s3 = s2\<lparr>current_index := index_or_minus_one (email_files_list s2) file_path\<rparr>;
          s4 = s3\<lparr>attachments_list := [], attachments := Map.empty\<rparr>;
          ext = lower (splitext_ext file_path)
      in if ext = ''.eml'' then load_eml e file_path s4
         else if ext = ''.msg'' then
           (if extract_msg e then load_msg e file_path s4
            else (None, warning
                    ''MSG file support not available. Please install extract_msg module.'' s4))
         else (None, warning ''Unsupported file format.'' s4))"



text \<open>The attributes set by \<^verbatim>\<open>__init__\<close> and \<^verbatim>\<open>init_ui\<close>, before any file is written.\<close>

definition init :: viewer where
  "init =
     \<lparr>window_title = ''Emlee'', current_email_path = None, email_files_list = [],
      current_index = - 1, attachments = Map.empty, attachments_list = [],
      label_from = ''From: '', label_to = ''To: '', label_cc = ''CC: '',
      label_bcc = ''BCC: '', label_subject = ''Subject: '', label_date = ''Date: '',
      body_text = [], files = Map.empty, stdout = [], warnings = []\<rparr>"

subsection \<open>Auxiliary notions for the proofs\<close>

text \<open>
  \<open>frame s s'\<close>: \<open>s'\<close> differs from \<open>s\<close> at most in the attachment map, the attachment
  list, the files written and the lines printed. The two attachment loops change
  nothing else.
\<close>

definition frame :: "viewer \<Rightarrow> viewer \<Rightarrow> bool" where
  "frame s s' =
     (s' = s\<lparr>attachments := attachments s', attachments_list := attachments_list s',
             files := files s', stdout := stdout s'\<rparr>)"


subsection \<open>Example inputs\<close>

text \<open>
  A directory \<^verbatim>\<open>/mail\<close> holding \<^verbatim>\<open>a.eml\<close>, \<^verbatim>\<open>B.eml\<close> and \<^verbatim>\<open>c.msg\<close>, listed in an
  order of the file system's choosing.
\<close>

definition mail_glob :: "string \<Rightarrow> string list" where
  "mail_glob pattern =
     (if pattern = ''/mail/*.eml'' then [''/mail/B.eml'', ''/mail/a.eml'']
      else if pattern = ''/mail/*.msg'' then [''/mail/c.msg'']
      else [])"

text \<open>
  An environment in which every \<^verbatim>\<open>.eml\<close> path parses to \<open>msg\<close>, every \<^verbatim>\<open>.msg\<close> path
  reads as \<open>m\<close>, the temporary directory is \<^verbatim>\<open>/tmp\<close>, and a file can be created
  directly in \<^verbatim>\<open>/tmp\<close> and in \<^verbatim>\<open>/home/user\<close> (the directories that exist and are
  writable).
\<close>

definition env_of :: "message \<Rightarrow> msgfile \<Rightarrow> env" where
  "env_of msg m =
     \<lparr>extract_msg = True, glob = mail_glob, gettempdir = ''/tmp'',
      parse = (\<lambda>path. Inr msg), Message = (\<lambda>path. Inr m),
      can_open = (\<lambda>path. dirname path = ''/tmp'' \<or> dirname path = ''/home/user''),
      decode = (\<lambda>b. b)\<rparr>"

definition text_part :: "string \<Rightarrow> string \<Rightarrow> part" where
  "text_part ctype t =
     \<lparr>content_disposition = None, get_content_type = ctype, get_content = Inr (PyStr t),
      get_filename = None, get_payload = Some t\<rparr>"

text \<open>
  A multipart container: it has no payload of its own, and the content manager has no
  handler for it (\<^verbatim>\<open>get_content\<close> raises KeyError).
\<close>

definition container :: "string \<Rightarrow> part" where
  "container ctype =
     \<lparr>content_disposition = None, get_content_type = ctype, get_content = Inl KeyError,
      get_filename = None, get_payload = None\<rparr>"

definition attachment_part :: "string \<Rightarrow> bytes \<Rightarrow> part" where
  "attachment_part name b =
     \<lparr>content_disposition = Some (''attachment; filename='' @ name),
      get_content_type = ''application/octet-stream'', get_content = Inr (PyBytes b),
      get_filename = Some name, get_payload = Some b\<rparr>"

definition multipart :: "string \<Rightarrow> part list \<Rightarrow> message" where
  "multipart ctype ps =
     \<lparr>header = (\<lambda>name. None), is_multipart = True, root = container ctype, subparts = ps\<rparr>"

definition single :: "part \<Rightarrow> message" where
  "single p = \<lparr>header = (\<lambda>name. None), is_multipart = False, root = p, subparts = []\<rparr>"

definition empty_msgfile :: msgfile where
  "empty_msgfile =
     \<lparr>sender = None, to = None, cc = None, bcc = None, date = None, subject = None,
      htmlBody = None, body = None, msg_attachments = []\<rparr>"

definition hello :: message where
  "hello = single (text_part ''text/plain'' ''hello'')"

text \<open>The viewer after \<^verbatim>\<open>/mail/B.eml\<close> was opened in that directory.\<close>

definition at_B :: viewer where
  "at_B = init\<lparr>email_files_list := [''/mail/a.eml'', ''/mail/B.eml'', ''/mail/c.msg''],
              current_index := 1\<rparr>"

text \<open>
  The body-selection order of the specification (section 4.3), a candidate counting as
  present when it is not empty: the HTML candidate verbatim; failing that the plain
  candidate, escaped and wrapped in \<^verbatim>\<open><pre>\<close>; failing both the empty string.
\<close>

fun nonempty :: "string option \<Rightarrow> string option" where
  "nonempty None = None"
| "nonempty (Some t) = (if t = [] then None else Some t)"

definition body_policy :: "string option \<Rightarrow> string option \<Rightarrow> string" where
  "body_policy html plain =
     (case nonempty html of
        Some t \<Rightarrow> t
      | None \<Rightarrow>
          (case nonempty plain of
             Some t \<Rightarrow> ''<pre>'' @ html_escape t @ ''</pre>''
           | None \<Rightarrow> []))"

text \<open>Messages with several body parts.\<close>

definition two_html :: message where
  "two_html = multipart ''multipart/alternative''
     [text_part ''text/html'' ''<b>first</b>'', text_part ''text/html'' ''<b>second</b>'']"

definition inline_html :: message where
  "inline_html = multipart ''multipart/mixed''
     [(text_part ''text/html'' ''<b>shown inline</b>'')\<lparr>content_disposition := Some ''inline''\<rparr>]"

definition three_texts :: message where
  "three_texts = multipart ''multipart/mixed''
     [text_part ''text/plain'' ''one'', text_part ''text/html'' ''<i>two</i>'',
      text_part ''text/plain'' ''three'']"

definition empty_html_alt :: message where
  "empty_html_alt = multipart ''multipart/alternative''
     [text_part ''text/plain'' ''hi'', text_part ''text/html'' []]"

definition both_alt :: message where
  "both_alt = multipart ''multipart/alternative''
     [text_part ''text/plain'' ''a < b'', text_part ''text/html'' ''<p>a &lt; b</p>'']"

definition plain_msgfile :: msgfile where
  "plain_msgfile = empty_msgfile\<lparr>body := Some (PyStr ''x < y'')\<rparr>"



text \<open>
  A text part that names a character set Python does not know (decoding it raises
  LookupError), followed by an attachment; a part with an attachment disposition and no
  filename, between a text part and a named attachment; an environment in which no file
  can be read.
\<close>

definition bad_charset :: message where
  "bad_charset = multipart ''multipart/mixed''
     [(text_part ''text/plain'' [])\<lparr>get_content := Inl LookupError\<rparr>,
      attachment_part ''ok.txt'' ''data'']"

definition nameless :: part where
  "nameless = (attachment_part [] ''lost'')\<lparr>content_disposition := Some ''attachment'',
      get_filename := None\<rparr>"

definition with_nameless :: message where
  "with_nameless = multipart ''multipart/mixed''
     [text_part ''text/plain'' ''see attached'', nameless, attachment_part ''ok.txt'' ''data'']"

definition unreadable :: env where
  "unreadable = (env_of hello empty_msgfile)
     \<lparr>parse := (\<lambda>path. Inl OSError), Message := (\<lambda>path. Inl OSError)\<rparr>"

text \<open>
  A viewer that shows an email with one attachment, and an environment without the
  \<^verbatim>\<open>extract_msg\<close> module.
\<close>

definition shown :: viewer where
  "shown = at_B\<lparr>label_from := ''From: alice@example.org'', body_text := ''<p>old</p>'',
     attachments := [''a.txt'' \<mapsto> ''/tmp/a.txt''], attachments_list := [''a.txt''],
     files := [''/tmp/a.txt'' \<mapsto> ''A'']\<rparr>"

definition no_extract_msg :: env where
  "no_extract_msg = (env_of hello empty_msgfile)\<lparr>extract_msg := False\<rparr>"

text \<open>The viewer after lines 109-132 of \<^verbatim>\<open>load_email_file\<close>, just before the dispatch on the extension.\<close>

definition cleared :: "env \<Rightarrow> string \<Rightarrow> viewer \<Rightarrow> viewer" where
  "cleared e file_path s =
     s\<lparr>body_text := ''<p>Loading email, please wait...</p>'',
       current_email_path := Some file_path,
       window_title := ''Emlee - '' @ basename file_path,
       email_files_list := sibling_files e file_path,
       current_index := index_or_minus_one (sibling_files e file_path) file_path,
       attachments_list := [], attachments := Map.empty\<rparr>"




text \<open>
  Messages with attachments: one whose first attachment names a directory that does not
  exist under \<^verbatim>\<open>/tmp\<close>, with the same attachments as \<^verbatim>\<open>extract_msg\<close> would present
  them; one whose attachment has an absolute filename; one with a plain and an absolute
  filename that meet in \<^verbatim>\<open>/tmp\<close>; one with two attachments of the same name.
\<close>

definition two_attachments :: message where
  "two_attachments = multipart ''multipart/mixed''
     [text_part ''text/plain'' ''see attached'',
      attachment_part ''reports/q1.txt'' ''Q1'', attachment_part ''notes.txt'' ''N'']"

definition two_attachments_msg :: msgfile where
  "two_attachments_msg = empty_msgfile
     \<lparr>body := Some (PyStr ''see attached''),
      msg_attachments :=
        [\<lparr>longFilename = Some ''reports/q1.txt'', shortFilename = None, data = Some ''Q1''\<rparr>,
         \<lparr>longFilename = Some ''notes.txt'', shortFilename = None, data = Some ''N''\<rparr>]\<rparr>"

definition absolute_name :: message where
  "absolute_name = multipart ''multipart/mixed''
     [text_part ''text/plain'' ''hello'',
      attachment_part ''/home/user/.profile'' ''echo pwned'']"



text \<open>The filename lines 233-234 choose for an attachment of a \<^verbatim>\<open>.msg\<close> file (empty when there is none).\<close>

definition att_filename :: "att \<Rightarrow> string" where
  "att_filename a =
     or_empty (if longFilename a \<noteq> None \<and> longFilename a \<noteq> Some [] then longFilename a
               else shortFilename a)"

section \<open>Properties\<close>

subsection \<open>What the loaders leave unchanged\<close>


lemma frame_refl: "frame s s"
  by (simp add: frame_def)

lemma frame_trans: "frame s t \<Longrightarrow> frame t u \<Longrightarrow> frame s u"
  unfolding frame_def by (cases s, cases t, cases u) simp

lemma frame_write_file: "frame s (snd (write_file e path d s))"
  by (simp add: frame_def write_file_def split: option.splits)

lemma frame_add_attachment: "frame s (add_attachment n p s)"
  by (simp add: frame_def add_attachment_def)

lemma frame_eml_attachments: "frame s (snd (eml_attachments e ps s))"
proof (induction ps arbitrary: s)
  case Nil
  show ?case by (simp add: frame_refl)
next
  case (Cons p ps)
  show ?case
  proof (cases "contains ''attachment'' (or_empty (content_disposition p)) \<and> get_filename p \<noteq> None \<and> get_filename p \<noteq> Some []")
    case False
    then show ?thesis using Cons.IH[of s] by (auto simp: Let_def split: option.splits)
  next
    case True
    then obtain n where n: "get_filename p = Some n" "n \<noteq> []" by auto
    let ?tp = "path_join (gettempdir e) n"
    obtain r s' where w: "write_file e ?tp (get_payload p) s = (r, s')" by (cases "write_file e ?tp (get_payload p) s")
    have f1: "frame s s'" using frame_write_file[of s e ?tp "get_payload p"] w by simp
    show ?thesis
    proof (cases r)
      case None
      have "frame s' (add_attachment n ?tp s')" by (rule frame_add_attachment)
      moreover have "frame (add_attachment n ?tp s') (snd (eml_attachments e ps (add_attachment n ?tp s')))" by (rule Cons.IH)
      ultimately have "frame s (snd (eml_attachments e ps (add_attachment n ?tp s')))"
        using f1 frame_trans by blast
      then show ?thesis using True n w None by (simp add: Let_def)
    next
      case (Some x)
      then show ?thesis using True n w f1 by (simp add: Let_def)
    qed
  qed
qed


lemma frame_msg_attachments_loop: "frame s (msg_attachments_loop e as s)"
proof (induction as arbitrary: s)
  case Nil
  show ?case by (simp add: frame_refl)
next
  case (Cons a as)
  let ?fn = "if longFilename a \<noteq> None \<and> longFilename a \<noteq> Some [] then longFilename a else shortFilename a"
  show ?case
  proof (cases "?fn = None \<or> ?fn = Some []")
    case True
    then show ?thesis using Cons.IH[of s] by (auto simp: Let_def split: option.splits)
  next
    case False
    then obtain n where n: "?fn = Some n" "n \<noteq> []" by auto
    let ?tp = "path_join (gettempdir e) n"
    obtain r s' where w: "write_file e ?tp (data a) s = (r, s')"
      by (cases "write_file e ?tp (data a) s")
    have f1: "frame s s'" using frame_write_file[of s e ?tp "data a"] w by simp
    show ?thesis
    proof (cases r)
      case None
      have "frame s' (add_attachment n ?tp s')" by (rule frame_add_attachment)
      moreover have "frame (add_attachment n ?tp s')
          (msg_attachments_loop e as (add_attachment n ?tp s'))" by (rule Cons.IH)
      ultimately have "frame s (msg_attachments_loop e as (add_attachment n ?tp s'))"
        using f1 frame_trans by blast
      then show ?thesis using n w None by (simp add: Let_def)
    next
      case (Some x)
      let ?s2 = "s'\<lparr>stdout := stdout s' @ [''Error saving attachment '' @ n]\<rparr>"
      have "frame s' ?s2" by (simp add: frame_def)
      moreover have "frame ?s2 (msg_attachments_loop e as ?s2)" by (rule Cons.IH)
      ultimately have "frame s (msg_attachments_loop e as ?s2)"
        using f1 frame_trans by blast
      then show ?thesis using n w Some by (simp add: Let_def)
    qed
  qed
qed








subsection \<open>Navigation\<close>








subsection \<open>Body candidates and body selection\<close>

lemma get_content_disposition_None [simp]:
  "get_content_disposition p = None \<longleftrightarrow> content_disposition p = None"
  by (simp add: get_content_disposition_def)

lemma walk_bodies_last:
  "walk_bodies ps (h0, p0) = Inr (h, pl) \<Longrightarrow>
   (let hs = filter (\<lambda>q. content_disposition q = None \<and> get_content_type q = ''text/html'') ps;
        ts = filter (\<lambda>q. content_disposition q = None \<and> get_content_type q = ''text/plain'') ps
    in (if hs = [] then h = h0 else \<exists>v. h = Some v \<and> get_content (last hs) = Inr v) \<and>
       (if ts = [] then pl = p0 else \<exists>v. pl = Some v \<and> get_content (last ts) = Inr v))"
proof (induction ps arbitrary: h0 p0)
  case Nil
  then show ?case by simp
next
  case (Cons q ps)
  show ?case
  proof (cases "content_disposition q = None")
    case False
    then obtain d where d: "content_disposition q = Some d" by auto
    then have "walk_bodies ps (h0, p0) = Inr (h, pl)" using Cons.prems by simp
    from Cons.IH[OF this] show ?thesis using d by (simp add: Let_def)
  next
    case nodisp: True
    show ?thesis
    proof (cases "get_content_type q = ''text/html''")
      case html: True
      then obtain v where v: "get_content q = Inr v"
        using Cons.prems nodisp by (cases "get_content q") simp_all
      then have "walk_bodies ps (Some v, p0) = Inr (h, pl)"
        using Cons.prems nodisp html by simp
      from Cons.IH[OF this] show ?thesis using nodisp html v
        by (simp add: Let_def split: if_splits)
    next
      case nohtml: False
      show ?thesis
      proof (cases "get_content_type q = ''text/plain''")
        case plain: True
        then obtain v where v: "get_content q = Inr v"
          using Cons.prems nodisp nohtml by (cases "get_content q") simp_all
        then have "walk_bodies ps (h0, Some v) = Inr (h, pl)"
          using Cons.prems nodisp nohtml plain by simp
        from Cons.IH[OF this] show ?thesis using nodisp nohtml plain v
          by (simp add: Let_def split: if_splits)
      next
        case False
        then have "walk_bodies ps (h0, p0) = Inr (h, pl)"
          using Cons.prems nodisp nohtml by simp
        from Cons.IH[OF this] show ?thesis using nodisp nohtml False
          by (simp add: Let_def)
      qed
    qed
  qed
qed

text \<open>The walk returns whenever every part it has to decode can be decoded.\<close>

lemma walk_bodies_returns:
  "list_all (\<lambda>q. content_disposition q = None \<and>
        (get_content_type q = ''text/html'' \<or> get_content_type q = ''text/plain'')
      \<longrightarrow> isl (get_content q) = False) ps
   \<Longrightarrow> \<exists>r. walk_bodies ps acc = Inr r"
proof (induction ps arbitrary: acc)
  case Nil
  show ?case by (cases acc) simp
next
  case (Cons q ps)
  obtain h0 p0 where acc: "acc = (h0, p0)" by (cases acc)
  from Cons.prems have rest: "\<And>acc'. \<exists>r. walk_bodies ps acc' = Inr r"
    using Cons.IH by simp
  show ?case
    using Cons.prems rest unfolding acc
    by (cases "get_content q") (auto simp: split: if_splits)
qed

text \<open>
  C3 as the code has it. When the walk over the parts of a message returns, the HTML
  candidate is the content of the last part that has no Content-Disposition header at all
  and whose content type is \<^verbatim>\<open>text/html\<close>, and \<open>None\<close> when there is no such part;
  likewise the plain candidate for \<^verbatim>\<open>text/plain\<close>. Each such part overwrites the
  candidate found before it.
\<close>

theorem last_occurrence_wins:
  assumes "walk_bodies (walk msg) (None, None) = Inr (html_body, plain_body)"
  shows "let hs = filter (\<lambda>q. content_disposition q = None \<and> get_content_type q = ''text/html'') (walk msg);
        ts = filter (\<lambda>q. content_disposition q = None \<and> get_content_type q = ''text/plain'') (walk msg)
    in (if hs = [] then html_body = None
        else \<exists>v. html_body = Some v \<and> get_content (last hs) = Inr v) \<and>
       (if ts = [] then plain_body = None
        else \<exists>v. plain_body = Some v \<and> get_content (last ts) = Inr v)"
  using walk_bodies_last[OF assms] .


theorem last_occurrence_wins_witness:
  "walk_bodies (walk three_texts) (None, None) =
     Inr (Some (PyStr ''<i>two</i>''), Some (PyStr ''three'')) \<and>
   get_content (last (filter (\<lambda>q. content_disposition q = None \<and>
       get_content_type q = ''text/plain'') (walk three_texts))) = Inr (PyStr ''three'')"
proof -
  have w: "walk_bodies (walk three_texts) (None, None) =
     Inr (Some (PyStr ''<i>two</i>''), Some (PyStr ''three''))"
    by (simp add: three_texts_def multipart_def walk_def container_def text_part_def)
  from last_occurrence_wins[OF w] show ?thesis using w
    by (simp add: three_texts_def multipart_def walk_def container_def text_part_def)
qed

text \<open>
  C3 as stated fails: of two undisposed \<^verbatim>\<open>text/html\<close> parts the walk keeps the second,
  not the first; and a \<^verbatim>\<open>text/html\<close> part whose disposition is \<^verbatim>\<open>inline\<close>, which does
  not indicate an attachment, is not captured at all.
\<close>

theorem first_occurrence_counterexample:
  "walk_bodies (walk two_html) (None, None) = Inr (Some (PyStr ''<b>second</b>''), None) \<and>
   walk_bodies (walk inline_html) (None, None) = Inr (None, None)"
  by (simp add: two_html_def inline_html_def multipart_def walk_def container_def text_part_def)

lemma frame_body_text: "frame s s' \<Longrightarrow> body_text s' = body_text s"
  unfolding frame_def by (cases s, cases s') simp

lemma show_eml_body_text:
  "eml_body msg = Inr b \<Longrightarrow> body_text (snd (show_eml e msg s)) = b"
  using frame_body_text[OF frame_eml_attachments]
  by (simp add: show_eml_def)

lemma eml_body_multipart:
  assumes "is_multipart msg"
    and "walk_bodies (walk msg) (None, None) = Inr (map_option PyStr h, map_option PyStr p)"
  shows "eml_body msg = Inr (body_policy h p)"
  using assms by (cases h; cases p) (simp_all add: eml_body_def body_policy_def)

lemma msg_body_policy:
  assumes "\<And>b. (decode e b = []) = (b = [])"
  shows "msg_body e m =
     body_policy (map_option (as_text e) (htmlBody m)) (map_option (as_text e) (body m))"
proof -
  have t: "\<And>v. (as_text e v = []) = (\<not> truthy (Some v))"
    subgoal for v by (cases v) (simp_all add: assms)
    done
  show ?thesis
    by (cases "htmlBody m"; cases "body m") (simp_all add: msg_body_def body_policy_def t)
qed

lemma load_msg_body_text:
  "Message e fp = Inr m \<Longrightarrow> body_text (snd (load_msg e fp s)) = msg_body e m"
  using frame_body_text[OF frame_msg_attachments_loop]
  by (simp add: load_msg_def Let_def)

text \<open>
  C1 as the code has it. For a multipart \<^verbatim>\<open>.eml\<close> message whose walk yields the text
  candidates \<open>h\<close> and \<open>p\<close>, and for a \<^verbatim>\<open>.msg\<close> message with the candidates
  \<^verbatim>\<open>htmlBody\<close> and \<^verbatim>\<open>body\<close>, the body shown is the first of: the HTML candidate
  verbatim if it is not empty, the plain candidate escaped and wrapped if it is not empty,
  the empty string. The decoder is assumed to map no bytes, and only no bytes, to the
  empty string.
\<close>

theorem body_selection_policy:
  assumes "\<And>b. (decode e b = []) = (b = [])"
  shows "(parse e fp = Inr msg \<and> is_multipart msg \<and>
          walk_bodies (walk msg) (None, None) = Inr (map_option PyStr h, map_option PyStr p)
          \<longrightarrow> body_text (snd (load_eml e fp s)) = body_policy h p) \<and>
         (Message e fq = Inr m
          \<longrightarrow> fst (load_msg e fq t) = None \<and>
              body_text (snd (load_msg e fq t)) =
                body_policy (map_option (as_text e) (htmlBody m))
                  (map_option (as_text e) (body m)))"
proof (intro conjI impI)
  assume a: "parse e fp = Inr msg \<and> is_multipart msg \<and>
          walk_bodies (walk msg) (None, None) = Inr (map_option PyStr h, map_option PyStr p)"
  then have "eml_body msg = Inr (body_policy h p)" by (simp add: eml_body_multipart)
  then show "body_text (snd (load_eml e fp s)) = body_policy h p"
    using a by (simp add: load_eml_def show_eml_body_text)
next
  assume "Message e fq = Inr m"
  then show "fst (load_msg e fq t) = None" by (simp add: load_msg_def Let_def)
next
  assume "Message e fq = Inr m"
  then show "body_text (snd (load_msg e fq t)) =
      body_policy (map_option (as_text e) (htmlBody m)) (map_option (as_text e) (body m))"
    using msg_body_policy[OF assms] by (simp add: load_msg_body_text)
qed

theorem body_selection_policy_witness:
  "body_text (snd (load_eml (env_of both_alt plain_msgfile) ''/mail/a.eml'' init)) =
     ''<p>a &lt; b</p>'' \<and>
   fst (load_msg (env_of both_alt plain_msgfile) ''/mail/c.msg'' init) = None \<and>
   body_text (snd (load_msg (env_of both_alt plain_msgfile) ''/mail/c.msg'' init)) =
     ''<pre>x &lt; y</pre>''"
proof -
  let ?e = "env_of both_alt plain_msgfile"
  have d: "\<And>b. (decode ?e b = []) = (b = [])" by (simp add: env_of_def)
  have p: "parse ?e ''/mail/a.eml'' = Inr both_alt" by (simp add: env_of_def)
  have m: "Message ?e ''/mail/c.msg'' = Inr plain_msgfile" by (simp add: env_of_def)
  have w: "walk_bodies (walk both_alt) (None, None) =
      Inr (map_option PyStr (Some ''<p>a &lt; b</p>''), map_option PyStr (Some ''a < b''))"
    by (simp add: both_alt_def multipart_def walk_def container_def text_part_def)
  have i: "is_multipart both_alt" by (simp add: both_alt_def multipart_def)
  show ?thesis
    using body_selection_policy[where e = ?e and fp = "''/mail/a.eml''" and msg = both_alt
        and h = "Some ''<p>a &lt; b</p>''" and p = "Some ''a < b''" and fq = "''/mail/c.msg''"
        and m = plain_msgfile and s = init and t = init, OF d] p m w i
    by (simp add: body_policy_def plain_msgfile_def empty_msgfile_def html_escape_def
        replace_char_def)
qed

text \<open>
  C1 as stated fails, however "a candidate exists" is read. If an empty candidate
  exists: a multipart message with an empty HTML part and the plain part \<^verbatim>\<open>hi\<close> has
  an HTML candidate, yet the body is the escaped plain text, not the HTML candidate. If
  an empty candidate does not exist: a message that is not multipart, with empty plain
  text, has no candidate, yet the body is \<^verbatim>\<open><pre></pre>\<close>, not the empty string.
\<close>

theorem body_selection_counterexample:
  "walk_bodies (walk empty_html_alt) (None, None) = Inr (Some (PyStr []), Some (PyStr ''hi'')) \<and>
   body_text (snd (load_eml (env_of empty_html_alt empty_msgfile) ''/mail/a.eml'' init)) =
     ''<pre>hi</pre>'' \<and>
   body_text (snd (load_eml (env_of (single (text_part ''text/plain'' [])) empty_msgfile)
     ''/mail/a.eml'' init)) = ''<pre></pre>''"
  by (simp add: empty_html_alt_def multipart_def single_def walk_def container_def text_part_def
      load_eml_def show_eml_def eml_body_def env_of_def init_def html_escape_def replace_char_def)

subsection \<open>Messages that are not multipart\<close>






subsection \<open>Parts that are skipped, and failures that are not absorbed\<close>

lemma walk_bodies_skip:
  "content_disposition p \<noteq> None \<Longrightarrow>
   walk_bodies (ps @ p # qs) acc = walk_bodies (ps @ qs) acc"
proof (induction ps arbitrary: acc)
  case Nil
  then show ?case by (cases acc) auto
next
  case (Cons q ps)
  then show ?case by (cases acc) (simp split: sum.splits)
qed

lemma eml_attachments_skip:
  "get_filename p = None \<or> get_filename p = Some [] \<Longrightarrow>
   eml_attachments e (ps @ p # qs) s = eml_attachments e (ps @ qs) s"
proof (induction ps arbitrary: s)
  case Nil
  then show ?case by (auto simp: Let_def)
next
  case (Cons q ps)
  then show ?case by (simp add: Let_def split: option.splits prod.splits)
qed

text \<open>
  C4 as the code has it. A part that carries a Content-Disposition header and has no
  filename (none, or an empty one) is skipped by both walks: with the part anywhere among
  the subparts, everything \<^verbatim>\<open>load_eml\<close> does with the parsed message (labels, body,
  attachments, files, the exception if any) is what it does without the part. And when
  the file cannot be opened and parsed, the open ends with that exception and changes
  nothing.
\<close>

theorem nameless_part_skipped:
  assumes "content_disposition p \<noteq> None"
    and "get_filename p = None \<or> get_filename p = Some []"
  shows "(parse e fp = Inl x \<longrightarrow> load_eml e fp s = (Some x, s)) \<and>
         show_eml e (msg\<lparr>subparts := ps @ p # qs\<rparr>) s = show_eml e (msg\<lparr>subparts := ps @ qs\<rparr>) s"
proof -
  have w1: "walk (msg\<lparr>subparts := ps @ p # qs\<rparr>) = (root msg # ps) @ p # qs"
    and w2: "walk (msg\<lparr>subparts := ps @ qs\<rparr>) = (root msg # ps) @ qs"
    by (simp_all add: walk_def)
  have w: "walk_bodies (walk (msg\<lparr>subparts := ps @ p # qs\<rparr>)) (None, None) =
      walk_bodies (walk (msg\<lparr>subparts := ps @ qs\<rparr>)) (None, None)"
    unfolding w1 w2 using assms(1) by (rule walk_bodies_skip)
  have b: "eml_body (msg\<lparr>subparts := ps @ p # qs\<rparr>) = eml_body (msg\<lparr>subparts := ps @ qs\<rparr>)"
    using w by (cases "get_content (root msg)") (simp_all add: eml_body_def)
  have a: "\<And>t. eml_attachments e (walk (msg\<lparr>subparts := ps @ p # qs\<rparr>)) t =
      eml_attachments e (walk (msg\<lparr>subparts := ps @ qs\<rparr>)) t"
    unfolding w1 w2 using assms(2) by (rule eml_attachments_skip)
  have "show_eml e (msg\<lparr>subparts := ps @ p # qs\<rparr>) s = show_eml e (msg\<lparr>subparts := ps @ qs\<rparr>) s"
    by (cases "eml_body (msg\<lparr>subparts := ps @ qs\<rparr>)") (simp_all add: show_eml_def b a Let_def)
  then show ?thesis by (simp add: load_eml_def)
qed


theorem nameless_part_skipped_witness:
  "show_eml (env_of hello empty_msgfile) with_nameless init =
     show_eml (env_of hello empty_msgfile)
       (multipart ''multipart/mixed''
          [text_part ''text/plain'' ''see attached'', attachment_part ''ok.txt'' ''data'']) init \<and>
   fst (show_eml (env_of hello empty_msgfile) with_nameless init) = None \<and>
   body_text (snd (show_eml (env_of hello empty_msgfile) with_nameless init)) =
     ''<pre>see attached</pre>'' \<and>
   attachments_list (snd (show_eml (env_of hello empty_msgfile) with_nameless init)) =
     [''ok.txt''] \<and>
   files (snd (show_eml (env_of hello empty_msgfile) with_nameless init)) ''/tmp/ok.txt'' =
     Some ''data'' \<and>
   load_eml unreadable ''/mail/a.eml'' init = (Some OSError, init)"
proof -
  let ?e = "env_of hello empty_msgfile"
  let ?m = "multipart ''multipart/mixed'' []"
  let ?ps = "[text_part ''text/plain'' ''see attached'']"
  let ?qs = "[attachment_part ''ok.txt'' ''data'']"
  have d: "content_disposition nameless \<noteq> None" by (simp add: nameless_def)
  have f: "get_filename nameless = None \<or> get_filename nameless = Some []"
    by (simp add: nameless_def)
  have m1: "with_nameless = ?m\<lparr>subparts := ?ps @ nameless # ?qs\<rparr>"
    by (simp add: with_nameless_def multipart_def)
  have m2: "multipart ''multipart/mixed''
          [text_part ''text/plain'' ''see attached'', attachment_part ''ok.txt'' ''data''] =
        ?m\<lparr>subparts := ?ps @ ?qs\<rparr>"
    by (simp add: multipart_def)
  have u: "parse unreadable ''/mail/a.eml'' = Inl OSError" by (simp add: unreadable_def)
  have skip: "show_eml ?e with_nameless init = show_eml ?e (?m\<lparr>subparts := ?ps @ ?qs\<rparr>) init"
    unfolding m1
    using nameless_part_skipped[OF d f, where e = ?e and msg = ?m and ps = ?ps and qs = ?qs
        and s = init]
    by simp
  have ev: "show_eml ?e (?m\<lparr>subparts := ?ps @ ?qs\<rparr>) init =
      (None, init\<lparr>body_text := ''<pre>see attached</pre>'',
         attachments := [''ok.txt'' \<mapsto> ''/tmp/ok.txt''], attachments_list := [''ok.txt''],
         files := [''/tmp/ok.txt'' \<mapsto> ''data'']\<rparr>)"
    by (simp add: show_eml_def eml_body_def multipart_def walk_def container_def text_part_def
        attachment_part_def env_of_def init_def html_escape_def replace_char_def startswith_def
        path_join_def write_file_def dirname_def add_attachment_def Let_def)
  have un: "load_eml unreadable ''/mail/a.eml'' init = (Some OSError, init)"
    using nameless_part_skipped[OF d f, where e = unreadable and fp = "''/mail/a.eml''"
        and x = OSError and s = init] u
    by simp
  show ?thesis unfolding m2 skip ev using un by simp
qed

text \<open>
  C4 as stated fails: the method has no handler. The file below parses, but decoding its
  text part raises; the exception leaves \<^verbatim>\<open>load_eml\<close> and the attachment that follows
  is never reached.
\<close>

theorem part_failure_counterexample:
  "parse (env_of bad_charset empty_msgfile) ''/mail/a.eml'' = Inr bad_charset \<and>
   fst (load_eml (env_of bad_charset empty_msgfile) ''/mail/a.eml'' init) = Some LookupError \<and>
   attachments (snd (load_eml (env_of bad_charset empty_msgfile) ''/mail/a.eml'' init))
     ''ok.txt'' = None \<and>
   files (snd (load_eml (env_of bad_charset empty_msgfile) ''/mail/a.eml'' init))
     ''/tmp/ok.txt'' = None"
  by (simp add: load_eml_def show_eml_def eml_body_def bad_charset_def multipart_def walk_def
      container_def text_part_def attachment_part_def env_of_def init_def)

subsection \<open>Opens that fail\<close>

lemma load_email_file_cleared:
  "load_email_file e p s =
     (let ext = lower (splitext_ext p) in
      if ext = ''.eml'' then load_eml e p (cleared e p s)
      else if ext = ''.msg'' then
           (if extract_msg e then load_msg e p (cleared e p s)
            else (None, warning
                    ''MSG file support not available. Please install extract_msg module.''
                    (cleared e p s)))
      else (None, warning ''Unsupported file format.'' (cleared e p s)))"
  by (simp add: load_email_file_def cleared_def Let_def)

text \<open>
  C2 as the code has it. Let an open end in one of the failure conditions: the extension
  is neither \<^verbatim>\<open>.eml\<close> nor \<^verbatim>\<open>.msg\<close>; it is \<^verbatim>\<open>.msg\<close> and \<^verbatim>\<open>extract_msg\<close> is
  missing; or the file cannot be read and parsed. Then nothing of the new email is shown
  and no file is written: the six header labels and the files are as before. The body,
  however, shows the loading notice, and the attachment map and list are empty: they were
  reset before the dispatch. The first two conditions return normally and add one warning
  box; a read failure leaves as the exception, without a warning.
\<close>

theorem failed_open_state:
  assumes "lower (splitext_ext p) \<noteq> ''.eml'' \<and>
             (lower (splitext_ext p) = ''.msg'' \<longrightarrow> \<not> extract_msg e)
       \<or> lower (splitext_ext p) = ''.eml'' \<and> isl (parse e p)
       \<or> lower (splitext_ext p) = ''.msg'' \<and> extract_msg e \<and> isl (Message e p)"
  shows "let r = fst (load_email_file e p s); s' = snd (load_email_file e p s);
             ext = lower (splitext_ext p) in
     label_from s' = label_from s \<and> label_to s' = label_to s \<and> label_cc s' = label_cc s \<and>
     label_bcc s' = label_bcc s \<and> label_subject s' = label_subject s \<and>
     label_date s' = label_date s \<and> files s' = files s \<and>
     body_text s' = ''<p>Loading email, please wait...</p>'' \<and>
     attachments s' = Map.empty \<and> attachments_list s' = [] \<and>
     current_email_path s' = Some p \<and>
     (if ext = ''.eml'' then r = Some (projl (parse e p)) \<and> warnings s' = warnings s
      else if ext = ''.msg'' \<and> extract_msg e
        then r = Some (projl (Message e p)) \<and> warnings s' = warnings s
      else if ext = ''.msg''
        then r = None \<and> warnings s' = warnings s @
          [''MSG file support not available. Please install extract_msg module.'']
      else r = None \<and> warnings s' = warnings s @ [''Unsupported file format.''])"
  using assms
  by (auto simp: load_email_file_cleared Let_def cleared_def warning_def load_eml_def load_msg_def
      split: sum.splits)

theorem failed_open_state_witness:
  "label_from (snd (load_email_file (env_of hello empty_msgfile) ''/mail/notes.txt'' shown)) =
     ''From: alice@example.org'' \<and>
   files (snd (load_email_file (env_of hello empty_msgfile) ''/mail/notes.txt'' shown)) =
     files shown \<and>
   warnings (snd (load_email_file (env_of hello empty_msgfile) ''/mail/notes.txt'' shown)) =
     [''Unsupported file format.''] \<and>
   warnings (snd (load_email_file no_extract_msg ''/mail/c.msg'' shown)) =
     [''MSG file support not available. Please install extract_msg module.''] \<and>
   fst (load_email_file unreadable ''/mail/a.eml'' shown) = Some OSError \<and>
   label_from (snd (load_email_file unreadable ''/mail/a.eml'' shown)) =
     ''From: alice@example.org''"
proof -
  have x1: "lower (splitext_ext ''/mail/notes.txt'') = ''.txt''"
    and x2: "lower (splitext_ext ''/mail/c.msg'') = ''.msg''"
    and x3: "lower (splitext_ext ''/mail/a.eml'') = ''.eml''"
    by (simp_all add: splitext_ext_def basename_def lower_def lower_char_def)
  have h1: "lower (splitext_ext ''/mail/notes.txt'') \<noteq> ''.eml'' \<and>
             (lower (splitext_ext ''/mail/notes.txt'') = ''.msg'' \<longrightarrow>
                \<not> extract_msg (env_of hello empty_msgfile))
       \<or> lower (splitext_ext ''/mail/notes.txt'') = ''.eml'' \<and>
            isl (parse (env_of hello empty_msgfile) ''/mail/notes.txt'')
       \<or> lower (splitext_ext ''/mail/notes.txt'') = ''.msg'' \<and>
            extract_msg (env_of hello empty_msgfile) \<and>
            isl (Message (env_of hello empty_msgfile) ''/mail/notes.txt'')"
    by (simp add: x1)
  have h2: "lower (splitext_ext ''/mail/c.msg'') \<noteq> ''.eml'' \<and>
             (lower (splitext_ext ''/mail/c.msg'') = ''.msg'' \<longrightarrow> \<not> extract_msg no_extract_msg)
       \<or> lower (splitext_ext ''/mail/c.msg'') = ''.eml'' \<and> isl (parse no_extract_msg ''/mail/c.msg'')
       \<or> lower (splitext_ext ''/mail/c.msg'') = ''.msg'' \<and> extract_msg no_extract_msg \<and>
            isl (Message no_extract_msg ''/mail/c.msg'')"
    by (simp add: x2 no_extract_msg_def)
  have h3: "lower (splitext_ext ''/mail/a.eml'') \<noteq> ''.eml'' \<and>
             (lower (splitext_ext ''/mail/a.eml'') = ''.msg'' \<longrightarrow> \<not> extract_msg unreadable)
       \<or> lower (splitext_ext ''/mail/a.eml'') = ''.eml'' \<and> isl (parse unreadable ''/mail/a.eml'')
       \<or> lower (splitext_ext ''/mail/a.eml'') = ''.msg'' \<and> extract_msg unreadable \<and>
            isl (Message unreadable ''/mail/a.eml'')"
    by (simp add: x3 unreadable_def)
  have l: "label_from shown = ''From: alice@example.org''" and w: "warnings shown = []"
    by (simp_all add: shown_def at_B_def init_def)
  have u: "parse unreadable ''/mail/a.eml'' = Inl OSError" by (simp add: unreadable_def)
  show ?thesis
    using failed_open_state[OF h1, of shown] failed_open_state[OF h2, of shown]
      failed_open_state[OF h3, of shown]
    by (simp add: Let_def x1 x2 x3 l w u no_extract_msg_def)
qed

text \<open>
  C2 as stated fails. The viewer shows an email from alice with the body
  \<^verbatim>\<open><p>old</p>\<close> and the attachment \<^verbatim>\<open>a.txt\<close>; opening \<^verbatim>\<open>notes.txt\<close> ends in the
  warning for an unsupported format, after which the header still names alice, while the
  body and the attachment map of that email are gone.
\<close>

theorem failed_open_counterexample:
  "body_text shown = ''<p>old</p>'' \<and>
   body_text (snd (load_email_file (env_of hello empty_msgfile) ''/mail/notes.txt'' shown)) =
     ''<p>Loading email, please wait...</p>'' \<and>
   attachments shown ''a.txt'' = Some ''/tmp/a.txt'' \<and>
   attachments (snd (load_email_file (env_of hello empty_msgfile) ''/mail/notes.txt'' shown))
     ''a.txt'' = None \<and>
   label_from (snd (load_email_file (env_of hello empty_msgfile) ''/mail/notes.txt'' shown)) =
     ''From: alice@example.org'' \<and>
   fst (load_email_file (env_of hello empty_msgfile) ''/mail/notes.txt'' shown) = None \<and>
   warnings (snd (load_email_file (env_of hello empty_msgfile) ''/mail/notes.txt'' shown)) =
     [''Unsupported file format.'']"
proof -
  have x: "lower (splitext_ext ''/mail/notes.txt'') = ''.txt''"
    by (simp add: splitext_ext_def basename_def lower_def lower_char_def)
  show ?thesis
    by (simp add: load_email_file_cleared Let_def x cleared_def warning_def shown_def at_B_def
        init_def)
qed

subsection \<open>Materializing attachments\<close>












text \<open>
  C5 at a failing input. The first attachment cannot be written. \<^verbatim>\<open>load_eml\<close> ends with
  the OSError and never reaches the second attachment; \<^verbatim>\<open>load_msg\<close>, given the same two
  attachments, prints the error, writes the second and returns normally.
\<close>

theorem eml_write_failure_aborts:
  "fst (load_eml (env_of two_attachments two_attachments_msg) ''/mail/a.eml'' init) =
     Some OSError \<and>
   files (snd (load_eml (env_of two_attachments two_attachments_msg) ''/mail/a.eml'' init))
     ''/tmp/notes.txt'' = None \<and>
   attachments (snd (load_eml (env_of two_attachments two_attachments_msg) ''/mail/a.eml'' init))
     ''notes.txt'' = None \<and>
   fst (load_msg (env_of two_attachments two_attachments_msg) ''/mail/c.msg'' init) = None \<and>
   files (snd (load_msg (env_of two_attachments two_attachments_msg) ''/mail/c.msg'' init))
     ''/tmp/notes.txt'' = Some ''N'' \<and>
   attachments (snd (load_msg (env_of two_attachments two_attachments_msg) ''/mail/c.msg'' init))
     ''notes.txt'' = Some ''/tmp/notes.txt'' \<and>
   stdout (snd (load_msg (env_of two_attachments two_attachments_msg) ''/mail/c.msg'' init)) =
     [''Error saving attachment reports/q1.txt'']"
  by (simp add: load_eml_def show_eml_def eml_body_def load_msg_def msg_body_def
      two_attachments_def two_attachments_msg_def empty_msgfile_def multipart_def walk_def
      container_def text_part_def attachment_part_def env_of_def init_def html_escape_def
      replace_char_def startswith_def path_join_def write_file_def dirname_def
      add_attachment_def Let_def)

text \<open>
  C6 at a failing input. With the temporary directory \<^verbatim>\<open>/tmp\<close>, an attachment whose
  filename is the absolute path \<^verbatim>\<open>/home/user/.profile\<close> is written to that very path.
\<close>

theorem attachment_written_outside_tempdir:
  "gettempdir (env_of absolute_name empty_msgfile) = ''/tmp'' \<and>
   fst (load_eml (env_of absolute_name empty_msgfile) ''/mail/a.eml'' init) = None \<and>
   attachments (snd (load_eml (env_of absolute_name empty_msgfile) ''/mail/a.eml'' init))
     ''/home/user/.profile'' = Some ''/home/user/.profile'' \<and>
   files (snd (load_eml (env_of absolute_name empty_msgfile) ''/mail/a.eml'' init))
     ''/home/user/.profile'' = Some ''echo pwned'' \<and>
   \<not> startswith ''/home/user/.profile'' ''/tmp/''"
  by (simp add: load_eml_def show_eml_def eml_body_def
      absolute_name_def multipart_def walk_def
      container_def text_part_def attachment_part_def env_of_def init_def html_escape_def
      replace_char_def startswith_def path_join_def write_file_def dirname_def
      add_attachment_def Let_def)

subsection \<open>What \<^verbatim>\<open>load_msg\<close> tolerates, and where plain names are written\<close>

lemma msg_attachments_loop_skip_step:
  "att_filename a = [] \<Longrightarrow> msg_attachments_loop e (a # as) s = msg_attachments_loop e as s"
  by (auto simp: att_filename_def Let_def split: option.splits if_splits)

lemma msg_attachments_loop_write_step:
  assumes "att_filename a \<noteq> []"
  shows "msg_attachments_loop e (a # as) s =
     (let temp_path = path_join (gettempdir e) (att_filename a) in
      case write_file e temp_path (data a) s of
        (Some x, s') \<Rightarrow>
          msg_attachments_loop e as
            (s'\<lparr>stdout := stdout s' @ [''Error saving attachment '' @ att_filename a]\<rparr>)
      | (None, s') \<Rightarrow>
          msg_attachments_loop e as (add_attachment (att_filename a) temp_path s'))"
  using assms unfolding att_filename_def
  by (auto simp: Let_def split: option.splits if_splits prod.splits)

text \<open>
  In \<^verbatim>\<open>load_msg\<close> the content of a path after the loop depends only on the attachments
  that are written to this path and could be opened: it is the data of the last of them
  (empty when that data is not bytes), and what it was before when there is none. An
  attachment that cannot be written changes no file and stops nothing.
\<close>

lemma msg_attachments_loop_files:
  "files (msg_attachments_loop e as s) path =
     (let qs = filter (\<lambda>a. att_filename a \<noteq> [] \<and>
                  path_join (gettempdir e) (att_filename a) = path \<and> can_open e path) as
      in if qs = [] then files s path
         else Some (case data (last qs) of Some b \<Rightarrow> b | None \<Rightarrow> []))"
proof (induction as arbitrary: s)
  case Nil
  show ?case by simp
next
  case (Cons a as)
  show ?case
  proof (cases "att_filename a = []")
    case True
    then show ?thesis using Cons.IH[of s]
      by (simp only: msg_attachments_loop_skip_step[OF True]) (simp add: Let_def)
  next
    case False
    let ?tp = "path_join (gettempdir e) (att_filename a)"
    show ?thesis
    proof (cases "can_open e ?tp")
      case no: False
      then show ?thesis
        using False Cons.IH[of "s\<lparr>stdout := stdout s @ [''Error saving attachment '' @ att_filename a]\<rparr>"]
        by (simp only: msg_attachments_loop_write_step[OF False])
           (auto simp: Let_def write_file_def)
    next
      case yes: True
      show ?thesis
      proof (cases "data a")
        case None
        then show ?thesis
          using False yes Cons.IH[of "s\<lparr>files := (files s)(?tp \<mapsto> []),
              stdout := stdout s @ [''Error saving attachment '' @ att_filename a]\<rparr>"]
          by (simp only: msg_attachments_loop_write_step[OF False])
             (auto simp: Let_def write_file_def)
      next
        case (Some b)
        then show ?thesis
          using False yes Cons.IH[of "add_attachment (att_filename a) ?tp (s\<lparr>files := (files s)(?tp \<mapsto> b)\<rparr>)"]
          by (simp only: msg_attachments_loop_write_step[OF False])
             (auto simp: Let_def write_file_def add_attachment_def)
      qed
    qed
  qed
qed

lemma load_msg_returns: "Message e fp = Inr m \<Longrightarrow> fst (load_msg e fp s) = None"
  by (simp add: load_msg_def Let_def)

text \<open>A filename without a slash is written directly below the temporary directory.\<close>

lemma path_join_plain:
  assumes "tmp \<noteq> []" and "last tmp \<noteq> CHR ''/''" and "CHR ''/'' \<notin> set n"
  shows "path_join tmp n = tmp @ ''/'' @ n"
  using assms by (cases n) (auto simp: path_join_def startswith_def)

end
